theory Spec2Isabelle
  imports Main "HOL-Library.AList"
begin

section \<open>The configuration resolver of nav (config.go)\<close>

text \<open>
  The file \<^verbatim>\<open>config.go\<close> resolves the run-time configuration of the tool from a
  default record, an optional JSON file and the command-line switches. The theory embeds
  its data types, its eleven switch handlers and the scan of \<^verbatim>\<open>argsParse\<close>.

  Go values are modelled as follows. A Go \<^verbatim>\<open>string\<close> is a \<open>string\<close> (a list of bytes), a
  Go \<^verbatim>\<open>int\<close> is an \<open>int\<close> kept inside the 64-bit range by the functions that produce one,
  a slice of strings is a \<open>string list option\<close> (\<open>None\<close> is the nil slice), an
  \<^verbatim>\<open>error\<close> result is an \<open>error option\<close> (\<open>None\<close> is Go's nil), and a run-time panic is
  an outcome of its own. A Go map is a reference: the struct holds an address and the
  entries live in a heap, so that copying the struct copies the address only.
\<close>

subsection \<open>Errors\<close>

text \<open>
  \<open>ErrorsNew m\<close> is the value of \<^verbatim>\<open>errors.New(m)\<close>. \<open>NumError s k\<close> is the
  \<^verbatim>\<open>*strconv.NumError\<close> of \<^verbatim>\<open>strconv.Atoi\<close> for the input \<open>s\<close>. \<open>PathError p\<close> is the error of
  \<^verbatim>\<open>os.Open\<close> on path \<open>p\<close>. \<open>SyntaxError\<close> and \<open>UnmarshalTypeError k\<close> are the two
  errors of \<^verbatim>\<open>json.Unmarshal\<close>: a text that is not JSON, and a JSON value that does not
  fit the Go type of the field with key \<open>k\<close> (the empty key stands for the whole document).
\<close>

datatype numErr = ErrSyntax | ErrRange

datatype error =
    ErrorsNew string
  | NumError string numErr
  | PathError string
  | SyntaxError
  | UnmarshalTypeError string

subsection \<open>The configuration record and the switch descriptors\<close>

type_synonym addr = nat

text \<open>The heap holds the entries of every \<^verbatim>\<open>map[string]bool\<close> object, by address. The
  entries are an association list read through \<open>map_of\<close> and written with
  \<open>AList.update\<close>.\<close>

type_synonym heap = "addr \<Rightarrow> (string \<times> bool) list"

text \<open>\<^verbatim>\<open>type configuration struct\<close>, field by field. The type \<^verbatim>\<open>outMode\<close> of the field
  \<^verbatim>\<open>Mode\<close> is declared outside \<^verbatim>\<open>config.go\<close>; it is taken to be an integer type as wide as
  \<^verbatim>\<open>int\<close>, which makes the conversion \<^verbatim>\<open>outMode(s)\<close> the identity.\<close>

record configuration =
  cmdlineNeeds :: addr
  DBTargetDB :: string
  DBUrl :: string
  DBUser :: string
  DBPassword :: string
  Symbol :: string
  Jout :: string
  ExcludedBefore :: "string list option"
  ExcludedAfter :: "string list option"
  TargetSubsys :: "string list option"
  Instance :: int
  MaxDepth :: int
  Mode :: int
  DBPort :: int

text \<open>The constants of the enumeration \<^verbatim>\<open>outMode\<close> that \<^verbatim>\<open>config.go\<close> uses
  (\<^verbatim>\<open>printAll\<close>, \<^verbatim>\<open>printSubsys\<close>, \<^verbatim>\<open>OutModeLast\<close>) are declared in another file of the
  package. They are parameters of the model: every function that reads one of them
  takes the record \<open>om\<close> of their values.\<close>

record outModes =
  printAll :: int
  printSubsys :: int
  OutModeLast :: int

text \<open>\<^verbatim>\<open>type argFunc func(*configuration, []string) error\<close>: the values of this type are
  the eleven handlers the file declares.\<close>

datatype argFunc =
    FuncHelp | FuncOutType | FuncJconf | FuncSymbol | FuncDBUser | FuncDBPass
  | FuncDBHost | FuncDBPort | FuncDepth | FuncInstance | FuncMode

text \<open>\<^verbatim>\<open>type cmdLineItems struct\<close>. The field \<^verbatim>\<open>function\<close> is \<open>func\<close> and the field
  \<^verbatim>\<open>id\<close> is \<open>itemId\<close> here.\<close>

record cmdLineItems =
  func :: argFunc
  switchStr :: string
  helpStr :: string
  itemId :: int
  hasArg :: bool
  needed :: bool

definition DBPortNumber :: int where
  "DBPortNumber = 5432"

text \<open>The one \<^verbatim>\<open>map[string]bool{}\<close> object of the program is allocated by the
  initialiser of \<^verbatim>\<open>defaultConfig\<close>; \<open>needsAddr\<close> is its address.\<close>

definition needsAddr :: addr where
  "needsAddr = 0"

definition initHeap :: heap where
  "initHeap = (\<lambda>a. [])"

definition defaultConfig :: "outModes \<Rightarrow> configuration" where
  "defaultConfig om =
     \<lparr> cmdlineNeeds = needsAddr,
       DBTargetDB = ''kernel_bin'',
       DBUrl = ''dbs.hqhome163.com'',
       DBUser = ''alessandro'',
       DBPassword = ''<password>'',
       Symbol = '''',
       Jout = ''graphOnly'',
       ExcludedBefore = Some [],
       ExcludedAfter = Some [],
       TargetSubsys = Some [],
       Instance = 0,
       MaxDepth = 0,
       Mode = printSubsys om,
       DBPort = DBPortNumber \<rparr>"

definition pushCmdLineItem ::
  "string \<Rightarrow> string \<Rightarrow> bool \<Rightarrow> bool \<Rightarrow> argFunc \<Rightarrow> cmdLineItems list \<Rightarrow> cmdLineItems list" where
  "pushCmdLineItem sw help hasA need fn cmdLine =
     cmdLine @ [\<lparr> func = fn, switchStr = sw, helpStr = help,
                   itemId = int (length cmdLine) + 1, hasArg = hasA, needed = need \<rparr>]"

definition cmdLineItemInit :: "cmdLineItems list" where
  "cmdLineItemInit =
    (let res = [];
         res = pushCmdLineItem ''-j'' ''Force Json output with subsystems data'' True False FuncOutType res;
         res = pushCmdLineItem ''-s'' ''Specifies symbol'' True True FuncSymbol res;
         res = pushCmdLineItem ''-i'' ''Specifies instance'' True True FuncInstance res;
         res = pushCmdLineItem ''-f'' ''Specifies config file'' True False FuncJconf res;
         res = pushCmdLineItem ''-u'' ''Forces use specified database userid'' True False FuncDBUser res;
         res = pushCmdLineItem ''-p'' ''Forces use specified password'' True False FuncDBPass res;
         res = pushCmdLineItem ''-d'' ''Forces use specified DBHost'' True False FuncDBHost res;
         res = pushCmdLineItem ''-p'' ''Forces use specified DBPort'' True False FuncDBPort res;
         res = pushCmdLineItem ''-m'' ''Sets display mode 2=subsystems,1=all'' True False FuncMode res;
         res = pushCmdLineItem ''-x'' ''Specify Max depth in call flow exploration'' True False FuncDepth res;
         res = pushCmdLineItem ''-h'' ''This help'' False False FuncHelp res
     in res)"

subsection \<open>strconv.Atoi\<close>

text \<open>
  \<^verbatim>\<open>strconv.Atoi(s)\<close> is \<^verbatim>\<open>ParseInt(s, 10, 0)\<close> converted to \<^verbatim>\<open>int\<close>, for an \<^verbatim>\<open>int\<close> of 64
  bits: an optional sign, then one or more decimal digits. The digits are read left to
  right into an unsigned 64-bit accumulator; a byte that is no digit is a syntax error,
  an accumulator that would pass \<open>2^64 - 1\<close> is a range error, whichever comes first. A
  value outside \<open>-2^63 .. 2^63 - 1\<close> is a range error.
\<close>

definition isDigit :: "char \<Rightarrow> bool" where
  "isDigit c = (48 \<le> (of_char c :: nat) \<and> (of_char c :: nat) \<le> 57)"

definition digitVal :: "char \<Rightarrow> int" where
  "digitVal c = of_char c - 48"

definition maxUint64 :: int where
  "maxUint64 = 18446744073709551615"

fun parseUintFrom :: "int \<Rightarrow> string \<Rightarrow> numErr + int" where
  "parseUintFrom n [] = Inr n"
| "parseUintFrom n (c # cs) =
     (if \<not> isDigit c then Inl ErrSyntax
      else if n * 10 + digitVal c > maxUint64 then Inl ErrRange
      else parseUintFrom (n * 10 + digitVal c) cs)"

definition parseSigned :: "string \<Rightarrow> bool \<Rightarrow> string \<Rightarrow> error + int" where
  "parseSigned s0 neg ds =
     (if ds = [] then Inl (NumError s0 ErrSyntax)
      else case parseUintFrom 0 ds of
             Inl k \<Rightarrow> Inl (NumError s0 k)
           | Inr un \<Rightarrow>
               if \<not> neg \<and> un \<ge> 9223372036854775808 then Inl (NumError s0 ErrRange)
               else if neg \<and> un > 9223372036854775808 then Inl (NumError s0 ErrRange)
               else Inr (if neg then - un else un))"

definition Atoi :: "string \<Rightarrow> error + int" where
  "Atoi s =
     (case s of
        [] \<Rightarrow> Inl (NumError s ErrSyntax)
      | c # cs \<Rightarrow>
          if c = CHR ''+'' then parseSigned s False cs
          else if c = CHR ''-'' then parseSigned s True cs
          else parseSigned s False s)"

subsection \<open>The JSON overlay of encoding/json\<close>

text \<open>
  \<^verbatim>\<open>funcJconf\<close> hands the bytes of the file to \<^verbatim>\<open>json.Unmarshal\<close> of the Go standard
  library, with the working configuration as target. The scanner that turns bytes into
  a JSON value is not modelled: the file system gives, for a path, either that it cannot
  be opened, or the JSON value its content denotes (\<open>None\<close> when the content is not a
  JSON text, which covers a failed read as well, since the error of \<^verbatim>\<open>io.ReadAll\<close> is
  dropped). Storing the value into the struct follows the documentation of
  \<^verbatim>\<open>json.Unmarshal\<close>:
  \<^item> an object key is matched to an exported field by its name, exactly or, failing
    that, up to case; a key that matches no field is skipped (\<^verbatim>\<open>cmdlineNeeds\<close> is not
    exported, so no key reaches it);
  \<^item> \<^verbatim>\<open>null\<close> sets a slice to nil and has no effect on a string or an integer;
  \<^item> an array replaces a slice, element by element;
  \<^item> a value that does not fit the type of its field is skipped, decoding carries on,
    and the first such mismatch is returned as the error;
  \<^item> a text that is not JSON is rejected before anything is stored.
  A number is \<open>JInt n\<close> when its literal has neither fraction nor exponent, and \<open>JNonInt\<close>
  otherwise (decoding into a Go integer rejects the latter whatever its value).
\<close>

datatype json =
    JNull
  | JBool bool
  | JInt int
  | JNonInt
  | JString string
  | JArray "json list"
  | JObject "(string \<times> json) list"

datatype fileResult = OpenFails | Opened "json option"

type_synonym filesystem = "string \<Rightarrow> fileResult"

text \<open>The exported fields of \<^verbatim>\<open>configuration\<close>, their names, and the kinds of their
  types.\<close>

datatype field =
    F_DBTargetDB | F_DBUrl | F_DBUser | F_DBPassword | F_Symbol | F_Jout
  | F_ExcludedBefore | F_ExcludedAfter | F_TargetSubsys
  | F_Instance | F_MaxDepth | F_Mode | F_DBPort

datatype kind = KString | KInt | KSlice

datatype fval = VString string | VInt int | VSlice "string list option"

fun fieldName :: "field \<Rightarrow> string" where
  "fieldName F_DBTargetDB = ''DBTargetDB''"
| "fieldName F_DBUrl = ''DBUrl''"
| "fieldName F_DBUser = ''DBUser''"
| "fieldName F_DBPassword = ''DBPassword''"
| "fieldName F_Symbol = ''Symbol''"
| "fieldName F_Jout = ''Jout''"
| "fieldName F_ExcludedBefore = ''ExcludedBefore''"
| "fieldName F_ExcludedAfter = ''ExcludedAfter''"
| "fieldName F_TargetSubsys = ''TargetSubsys''"
| "fieldName F_Instance = ''Instance''"
| "fieldName F_MaxDepth = ''MaxDepth''"
| "fieldName F_Mode = ''Mode''"
| "fieldName F_DBPort = ''DBPort''"

fun kindOf :: "field \<Rightarrow> kind" where
  "kindOf F_ExcludedBefore = KSlice"
| "kindOf F_ExcludedAfter = KSlice"
| "kindOf F_TargetSubsys = KSlice"
| "kindOf F_Instance = KInt"
| "kindOf F_MaxDepth = KInt"
| "kindOf F_Mode = KInt"
| "kindOf F_DBPort = KInt"
| "kindOf _ = KString"

definition fields :: "field list" where
  "fields = [F_DBTargetDB, F_DBUrl, F_DBUser, F_DBPassword, F_Symbol, F_Jout,
             F_ExcludedBefore, F_ExcludedAfter, F_TargetSubsys,
             F_Instance, F_MaxDepth, F_Mode, F_DBPort]"

fun getField :: "field \<Rightarrow> configuration \<Rightarrow> fval" where
  "getField F_DBTargetDB c = VString (DBTargetDB c)"
| "getField F_DBUrl c = VString (DBUrl c)"
| "getField F_DBUser c = VString (DBUser c)"
| "getField F_DBPassword c = VString (DBPassword c)"
| "getField F_Symbol c = VString (Symbol c)"
| "getField F_Jout c = VString (Jout c)"
| "getField F_ExcludedBefore c = VSlice (ExcludedBefore c)"
| "getField F_ExcludedAfter c = VSlice (ExcludedAfter c)"
| "getField F_TargetSubsys c = VSlice (TargetSubsys c)"
| "getField F_Instance c = VInt (Instance c)"
| "getField F_MaxDepth c = VInt (MaxDepth c)"
| "getField F_Mode c = VInt (Mode c)"
| "getField F_DBPort c = VInt (DBPort c)"

text \<open>Storing a decoded value into a field. The decoder only produces a value of the
  kind of the field; the last equation is never reached by it.\<close>

fun storeField :: "field \<Rightarrow> fval \<Rightarrow> configuration \<Rightarrow> configuration" where
  "storeField F_DBTargetDB (VString s) c = c\<lparr>DBTargetDB := s\<rparr>"
| "storeField F_DBUrl (VString s) c = c\<lparr>DBUrl := s\<rparr>"
| "storeField F_DBUser (VString s) c = c\<lparr>DBUser := s\<rparr>"
| "storeField F_DBPassword (VString s) c = c\<lparr>DBPassword := s\<rparr>"
| "storeField F_Symbol (VString s) c = c\<lparr>Symbol := s\<rparr>"
| "storeField F_Jout (VString s) c = c\<lparr>Jout := s\<rparr>"
| "storeField F_ExcludedBefore (VSlice l) c = c\<lparr>ExcludedBefore := l\<rparr>"
| "storeField F_ExcludedAfter (VSlice l) c = c\<lparr>ExcludedAfter := l\<rparr>"
| "storeField F_TargetSubsys (VSlice l) c = c\<lparr>TargetSubsys := l\<rparr>"
| "storeField F_Instance (VInt n) c = c\<lparr>Instance := n\<rparr>"
| "storeField F_MaxDepth (VInt n) c = c\<lparr>MaxDepth := n\<rparr>"
| "storeField F_Mode (VInt n) c = c\<lparr>Mode := n\<rparr>"
| "storeField F_DBPort (VInt n) c = c\<lparr>DBPort := n\<rparr>"
| "storeField _ _ c = c"

text \<open>Matching up to case is by the simple case folding of Unicode, which maps a name
  to the least member of each letter's folding class: an ASCII letter to its capital, and
  the two letters outside ASCII that fold into ASCII, U+017F (bytes C5 BF) to \<open>S\<close> and
  U+212A (bytes E2 84 AA) to \<open>K\<close>.\<close>

definition toUpper :: "char \<Rightarrow> char" where
  "toUpper c =
     (if 97 \<le> (of_char c :: nat) \<and> (of_char c :: nat) \<le> 122
      then char_of ((of_char c :: nat) - 32) else c)"

fun foldName :: "string \<Rightarrow> string" where
  "foldName [] = []"
| "foldName (c # cs) =
     (if c = CHR 0xC5 then
        (case cs of
           d # ds \<Rightarrow> if d = CHR 0xBF then CHR ''S'' # foldName ds else c # foldName cs
         | [] \<Rightarrow> [c])
      else if c = CHR 0xE2 then
        (case cs of
           d # e # es \<Rightarrow>
             if d = CHR 0x84 \<and> e = CHR 0xAA then CHR ''K'' # foldName es
             else c # foldName cs
         | _ \<Rightarrow> c # foldName cs)
      else toUpper c # foldName cs)"

definition lookupField :: "string \<Rightarrow> field option" where
  "lookupField key =
     (case find (\<lambda>F. fieldName F = key) fields of
        Some F \<Rightarrow> Some F
      | None \<Rightarrow> find (\<lambda>F. foldName (fieldName F) = foldName key) fields)"

text \<open>Decoding one JSON value for a field of a given kind: the value to store, if any,
  and whether the value did not fit. An array element that is \<^verbatim>\<open>null\<close> or does not fit a
  string leaves the empty string in its slot.\<close>

fun decodeElem :: "json \<Rightarrow> string \<times> bool" where
  "decodeElem (JString s) = (s, False)"
| "decodeElem JNull = ([], False)"
| "decodeElem _ = ([], True)"

definition minInt64 :: int where
  "minInt64 = - 9223372036854775808"

definition maxInt64 :: int where
  "maxInt64 = 9223372036854775807"

fun decodeValue :: "kind \<Rightarrow> json \<Rightarrow> fval option \<times> bool" where
  "decodeValue KString (JString s) = (Some (VString s), False)"
| "decodeValue KInt (JInt n) =
     (if minInt64 \<le> n \<and> n \<le> maxInt64 then (Some (VInt n), False) else (None, True))"
| "decodeValue KSlice (JArray vs) =
     (Some (VSlice (Some (map (\<lambda>v. fst (decodeElem v)) vs))),
      list_ex (\<lambda>v. snd (decodeElem v)) vs)"
| "decodeValue KSlice JNull = (Some (VSlice None), False)"
| "decodeValue _ JNull = (None, False)"
| "decodeValue _ _ = (None, True)"

text \<open>The loop over the members of a JSON object; \<open>e\<close> is the first mismatch so far.\<close>

fun object :: "(string \<times> json) list \<Rightarrow> configuration \<Rightarrow> error option \<Rightarrow> configuration \<times> error option" where
  "object [] c e = (c, e)"
| "object ((k, v) # kvs) c e =
     (case lookupField k of
        None \<Rightarrow> object kvs c e
      | Some F \<Rightarrow>
          (case decodeValue (kindOf F) v of
             (r, bad) \<Rightarrow>
               object kvs
                 (case r of None \<Rightarrow> c | Some x \<Rightarrow> storeField F x c)
                 (if bad \<and> e = None then Some (UnmarshalTypeError (fieldName F)) else e)))"

fun Unmarshal :: "json option \<Rightarrow> configuration \<Rightarrow> configuration \<times> error option" where
  "Unmarshal None c = (c, Some SyntaxError)"
| "Unmarshal (Some JNull) c = (c, None)"
| "Unmarshal (Some (JObject kvs)) c = object kvs c None"
| "Unmarshal (Some _) c = (c, Some (UnmarshalTypeError []))"

subsection \<open>The handlers\<close>

text \<open>A handler receives a pointer to the working configuration and a slice of
  arguments, and returns an error. The model returns the configuration as the handler
  leaves it, with the error. Reading \<^verbatim>\<open>fn[0]\<close> of an empty slice panics.\<close>

datatype hres = HPanic | HRet configuration "error option"

definition funcHelp :: "configuration \<Rightarrow> string list \<Rightarrow> hres" where
  "funcHelp conf fn = HRet conf (Some (ErrorsNew ''command help''))"

definition funcOutType :: "configuration \<Rightarrow> string list \<Rightarrow> hres" where
  "funcOutType conf jout =
     (case jout of [] \<Rightarrow> HPanic | a # _ \<Rightarrow> HRet (conf\<lparr>Jout := a\<rparr>) None)"

definition funcJconf :: "filesystem \<Rightarrow> configuration \<Rightarrow> string list \<Rightarrow> hres" where
  "funcJconf fs conf fn =
     (case fn of
        [] \<Rightarrow> HPanic
      | p # _ \<Rightarrow>
          (case fs p of
             OpenFails \<Rightarrow> HRet conf (Some (PathError p))
           | Opened t \<Rightarrow> (case Unmarshal t conf of (conf', e) \<Rightarrow> HRet conf' e)))"

definition funcSymbol :: "configuration \<Rightarrow> string list \<Rightarrow> hres" where
  "funcSymbol conf fn =
     (case fn of [] \<Rightarrow> HPanic | a # _ \<Rightarrow> HRet (conf\<lparr>Symbol := a\<rparr>) None)"

definition funcDBUser :: "configuration \<Rightarrow> string list \<Rightarrow> hres" where
  "funcDBUser conf user =
     (case user of [] \<Rightarrow> HPanic | a # _ \<Rightarrow> HRet (conf\<lparr>DBUser := a\<rparr>) None)"

definition funcDBPass :: "configuration \<Rightarrow> string list \<Rightarrow> hres" where
  "funcDBPass conf pass =
     (case pass of [] \<Rightarrow> HPanic | a # _ \<Rightarrow> HRet (conf\<lparr>DBPassword := a\<rparr>) None)"

definition funcDBHost :: "configuration \<Rightarrow> string list \<Rightarrow> hres" where
  "funcDBHost conf host =
     (case host of [] \<Rightarrow> HPanic | a # _ \<Rightarrow> HRet (conf\<lparr>DBUrl := a\<rparr>) None)"

definition funcDBPort :: "configuration \<Rightarrow> string list \<Rightarrow> hres" where
  "funcDBPort conf port =
     (case port of
        [] \<Rightarrow> HPanic
      | a # _ \<Rightarrow>
          (case Atoi a of
             Inl err \<Rightarrow> HRet conf (Some err)
           | Inr s \<Rightarrow> HRet (conf\<lparr>DBPort := s\<rparr>) None))"

definition funcDepth :: "configuration \<Rightarrow> string list \<Rightarrow> hres" where
  "funcDepth conf depth =
     (case depth of
        [] \<Rightarrow> HPanic
      | a # _ \<Rightarrow>
          (case Atoi a of
             Inl err \<Rightarrow> HRet conf (Some err)
           | Inr s \<Rightarrow>
               if s < 0 then HRet conf (Some (ErrorsNew ''depth must be >= 0''))
               else HRet (conf\<lparr>MaxDepth := s\<rparr>) None))"

definition funcInstance :: "configuration \<Rightarrow> string list \<Rightarrow> hres" where
  "funcInstance conf inst =
     (case inst of
        [] \<Rightarrow> HPanic
      | a # _ \<Rightarrow>
          (case Atoi a of
             Inl err \<Rightarrow> HRet conf (Some err)
           | Inr s \<Rightarrow> HRet (conf\<lparr>Instance := s\<rparr>) None))"

definition funcMode :: "outModes \<Rightarrow> configuration \<Rightarrow> string list \<Rightarrow> hres" where
  "funcMode om conf mode =
     (case mode of
        [] \<Rightarrow> HPanic
      | a # _ \<Rightarrow>
          (case Atoi a of
             Inl err \<Rightarrow> HRet conf (Some err)
           | Inr s \<Rightarrow>
               if s < printAll om \<or> s \<ge> OutModeLast om
               then HRet conf (Some (ErrorsNew ''unsupported mode''))
               else HRet (conf\<lparr>Mode := s\<rparr>) None))"

text \<open>Calling a value of type \<^verbatim>\<open>argFunc\<close>.\<close>

fun callFunc :: "filesystem \<Rightarrow> outModes \<Rightarrow> argFunc \<Rightarrow> configuration \<Rightarrow> string list \<Rightarrow> hres" where
  "callFunc fs om FuncHelp = funcHelp"
| "callFunc fs om FuncOutType = funcOutType"
| "callFunc fs om FuncJconf = funcJconf fs"
| "callFunc fs om FuncSymbol = funcSymbol"
| "callFunc fs om FuncDBUser = funcDBUser"
| "callFunc fs om FuncDBPass = funcDBPass"
| "callFunc fs om FuncDBHost = funcDBHost"
| "callFunc fs om FuncDBPort = funcDBPort"
| "callFunc fs om FuncDepth = funcDepth"
| "callFunc fs om FuncInstance = funcInstance"
| "callFunc fs om FuncMode = funcMode om"

subsection \<open>argsParse\<close>

text \<open>
  \<^verbatim>\<open>var conf = defaultConfig\<close> copies the struct, so \<open>cmdlineNeeds conf\<close> is the address of
  the map of \<^verbatim>\<open>defaultConfig\<close>, and every \<^verbatim>\<open>conf.cmdlineNeeds[k] = v\<close> writes the heap at
  that address. The function therefore takes the heap as it finds it and returns the
  heap as it leaves it, next to the two results of the Go function.
\<close>

datatype outcome = Return configuration "error option" heap | Panic

text \<open>What one round of a loop hands to the next: the local variables \<^verbatim>\<open>extra\<close>,
  \<^verbatim>\<open>f\<close> (\<open>None\<close> is the nil function) and \<^verbatim>\<open>conf\<close>, and the heap; or the function has
  returned or panicked.\<close>

datatype scan = Next bool "argFunc option" configuration heap | Stop outcome

definition mapassign :: "heap \<Rightarrow> addr \<Rightarrow> string \<Rightarrow> bool \<Rightarrow> heap" where
  "mapassign h a k v = h(a := AList.update k v (h a))"

text \<open>\<^verbatim>\<open>for _, arg := range lines\<close>, entered with \<^verbatim>\<open>extra\<close> false. A descriptor with an
  argument ends the loop (\<^verbatim>\<open>break\<close>); one without is called with an empty slice and the
  loop carries on with the remaining descriptors.\<close>

fun scanLines ::
  "filesystem \<Rightarrow> outModes \<Rightarrow> string \<Rightarrow> cmdLineItems list \<Rightarrow>
   argFunc option \<Rightarrow> configuration \<Rightarrow> heap \<Rightarrow> scan" where
  "scanLines fs om osArg [] f conf h = Next False f conf h"
| "scanLines fs om osArg (arg # rest) f conf h =
     (if switchStr arg = osArg then
        (let h1 = (if needed arg
                   then mapassign h (cmdlineNeeds conf) (switchStr arg) True else h)
         in if hasArg arg then Next True (Some (func arg)) conf h1
            else (case callFunc fs om (func arg) conf [] of
                    HPanic \<Rightarrow> Stop Panic
                  | HRet conf' (Some err) \<Rightarrow> Stop (Return (defaultConfig om) (Some err) h1)
                  | HRet conf' None \<Rightarrow> scanLines fs om osArg rest f conf' h1))
      else scanLines fs om osArg rest f conf h)"

text \<open>\<^verbatim>\<open>for _, osArg := range os.Args[1:]\<close>.\<close>

fun parseArgs ::
  "filesystem \<Rightarrow> outModes \<Rightarrow> cmdLineItems list \<Rightarrow> string list \<Rightarrow>
   bool \<Rightarrow> argFunc option \<Rightarrow> configuration \<Rightarrow> heap \<Rightarrow> scan" where
  "parseArgs fs om lines [] extra f conf h = Next extra f conf h"
| "parseArgs fs om lines (osArg # rest) extra f conf h =
     (if \<not> extra then
        (case scanLines fs om osArg lines f conf h of
           Next extra' f' conf' h' \<Rightarrow> parseArgs fs om lines rest extra' f' conf' h'
         | Stop r \<Rightarrow> Stop r)
      else
        (case f of
           None \<Rightarrow> Stop Panic
         | Some fn \<Rightarrow>
             (case callFunc fs om fn conf [osArg] of
                HPanic \<Rightarrow> Stop Panic
              | HRet conf' (Some err) \<Rightarrow> Stop (Return (defaultConfig om) (Some err) h)
              | HRet conf' None \<Rightarrow> parseArgs fs om lines rest False f conf' h)))"

text \<open>The first loop of \<^verbatim>\<open>argsParse\<close>: every mandatory descriptor's entry is set to
  false.\<close>

fun resetNeeds :: "cmdLineItems list \<Rightarrow> configuration \<Rightarrow> heap \<Rightarrow> heap" where
  "resetNeeds [] conf h = h"
| "resetNeeds (item # rest) conf h =
     resetNeeds rest conf
       (if needed item then mapassign h (cmdlineNeeds conf) (switchStr item) False else h)"

text \<open>The last loop: the conjunction of all values of the map (the order in which Go
  visits the entries does not matter to a conjunction).\<close>

definition allNeeds :: "(string \<times> bool) list \<Rightarrow> bool" where
  "allNeeds m = list_all (\<lambda>k. map_of m k = Some True) (map fst m)"

text \<open>\<^verbatim>\<open>argsParse\<close>. \<open>osArgs\<close> is \<^verbatim>\<open>os.Args\<close>, program name first; slicing an empty
  \<^verbatim>\<open>os.Args\<close> from 1 panics.\<close>

definition argsParse ::
  "filesystem \<Rightarrow> outModes \<Rightarrow> cmdLineItems list \<Rightarrow> string list \<Rightarrow> heap \<Rightarrow> outcome" where
  "argsParse fs om lines osArgs h =
     (let conf = defaultConfig om;
          h0 = resetNeeds lines conf h
      in case osArgs of
           [] \<Rightarrow> Panic
         | prog # args \<Rightarrow>
             (case parseArgs fs om lines args False None conf h0 of
                Stop r \<Rightarrow> r
              | Next extra f conf' h' \<Rightarrow>
                  if extra
                  then Return (defaultConfig om) (Some (ErrorsNew ''missing switch arg'')) h'
                  else if allNeeds (h' (cmdlineNeeds conf'))
                  then Return conf' None h'
                  else Return (defaultConfig om) (Some (ErrorsNew ''missing needed arg'')) h'))"

section \<open>The scan as the specification describes it\<close>

text \<open>
  The specification describes the scan as a machine with two states: ready for a switch,
  and awaiting the argument of the switch just recognised. The definitions of this
  section follow that description; the lemmas after them relate \<open>parseArgs\<close> to it.

  \<open>findSwitch\<close> is the first descriptor, in registration order, whose token is the
  given one. \<open>occurrences\<close> lists the switches recognised in the stream, each with the
  arguments its handler receives; a switch that takes an argument and ends the stream
  has no occurrence and is \<open>pending\<close>. \<open>recognized\<close> lists every descriptor matched in
  switch position, the pending one included.
\<close>

definition findSwitch :: "cmdLineItems list \<Rightarrow> string \<Rightarrow> cmdLineItems option" where
  "findSwitch lines tok = find (\<lambda>d. switchStr d = tok) lines"

fun occurrences :: "cmdLineItems list \<Rightarrow> string list \<Rightarrow> (cmdLineItems \<times> string list) list" where
  "occurrences lines [] = []"
| "occurrences lines [t] =
     (case findSwitch lines t of
        None \<Rightarrow> []
      | Some d \<Rightarrow> if hasArg d then [] else [(d, [])])"
| "occurrences lines (t # a # ts) =
     (case findSwitch lines t of
        None \<Rightarrow> occurrences lines (a # ts)
      | Some d \<Rightarrow>
          if hasArg d then (d, [a]) # occurrences lines ts
          else (d, []) # occurrences lines (a # ts))"

fun pending :: "cmdLineItems list \<Rightarrow> string list \<Rightarrow> cmdLineItems option" where
  "pending lines [] = None"
| "pending lines [t] =
     (case findSwitch lines t of
        None \<Rightarrow> None
      | Some d \<Rightarrow> if hasArg d then Some d else None)"
| "pending lines (t # a # ts) =
     (case findSwitch lines t of
        None \<Rightarrow> pending lines (a # ts)
      | Some d \<Rightarrow> if hasArg d then pending lines ts else pending lines (a # ts))"

definition endsMidArgument :: "cmdLineItems list \<Rightarrow> string list \<Rightarrow> bool" where
  "endsMidArgument lines toks = (pending lines toks \<noteq> None)"

definition recognized :: "cmdLineItems list \<Rightarrow> string list \<Rightarrow> cmdLineItems list" where
  "recognized lines toks =
     map fst (occurrences lines toks) @
     (case pending lines toks of None \<Rightarrow> [] | Some d \<Rightarrow> [d])"

text \<open>A handler call succeeds when it returns no error. Whether it does depends on the
  arguments and the file system only, not on the configuration it works on (lemma
  \<open>succeeds_any_conf\<close>); \<open>effect\<close> is the configuration it leaves.\<close>

definition succeeds :: "filesystem \<Rightarrow> outModes \<Rightarrow> argFunc \<Rightarrow> string list \<Rightarrow> bool" where
  "succeeds fs om fn args =
     (case callFunc fs om fn (defaultConfig om) args of
        HRet c None \<Rightarrow> True
      | _ \<Rightarrow> False)"

definition effect :: "filesystem \<Rightarrow> outModes \<Rightarrow> argFunc \<Rightarrow> string list \<Rightarrow> configuration \<Rightarrow> configuration" where
  "effect fs om fn args c =
     (case callFunc fs om fn c args of HRet c' e \<Rightarrow> c' | HPanic \<Rightarrow> c)"

definition allSucceed :: "filesystem \<Rightarrow> outModes \<Rightarrow> (cmdLineItems \<times> string list) list \<Rightarrow> bool" where
  "allSucceed fs om occs = list_all (\<lambda>(d, args). succeeds fs om (func d) args) occs"

fun applyAll ::
  "filesystem \<Rightarrow> outModes \<Rightarrow> (cmdLineItems \<times> string list) list \<Rightarrow> configuration \<Rightarrow> configuration" where
  "applyAll fs om [] c = c"
| "applyAll fs om ((d, args) # occs) c = applyAll fs om occs (effect fs om (func d) args c)"

text \<open>The tracker after the scan: the entry of every mandatory descriptor that was
  recognised is true.\<close>

fun markAll :: "addr \<Rightarrow> cmdLineItems list \<Rightarrow> heap \<Rightarrow> heap" where
  "markAll a [] h = h"
| "markAll a (d # ds) h =
     markAll a ds (if needed d then mapassign h a (switchStr d) True else h)"

text \<open>What a matched descriptor does, in one step (lemma \<open>scanLines_find\<close>).\<close>

definition matchSwitch ::
  "filesystem \<Rightarrow> outModes \<Rightarrow> cmdLineItems \<Rightarrow> configuration \<Rightarrow> heap \<Rightarrow> scan" where
  "matchSwitch fs om d conf h =
     (let h1 = (if needed d then mapassign h (cmdlineNeeds conf) (switchStr d) True else h)
      in if hasArg d then Next True (Some (func d)) conf h1
         else (case callFunc fs om (func d) conf [] of
                 HPanic \<Rightarrow> Stop Panic
               | HRet conf' e \<Rightarrow> Stop (Return (defaultConfig om) e h1)))"

section \<open>Concrete inputs\<close>

text \<open>Modelled from the spec: the constants \<^verbatim>\<open>printAll\<close>, \<^verbatim>\<open>printSubsys\<close> and
  \<^verbatim>\<open>OutModeLast\<close> of the enumeration \<^verbatim>\<open>outMode\<close>, which \<^verbatim>\<open>config.go\<close> uses and does not
  declare. The specification puts the modes 0 and 1 within the enumerated range of
  supported modes and 99 outside it, and makes "print subsystems" the default mode.\<close>

definition specModes :: outModes where
  "specModes = \<lparr> printAll = 0, printSubsys = 1, OutModeLast = 2 \<rparr>"

text \<open>A file system in which no file can be opened.\<close>

definition noFiles :: filesystem where
  "noFiles = (\<lambda>p. OpenFails)"

section \<open>Lemmas on the handlers\<close>

lemmas handler_defs =
  funcHelp_def funcOutType_def funcJconf_def funcSymbol_def funcDBUser_def funcDBPass_def
  funcDBHost_def funcDBPort_def funcDepth_def funcInstance_def funcMode_def

lemma callFunc_nil: "callFunc fs om fn c [] \<noteq> HRet c' None"
  by (cases fn) (simp_all add: handler_defs)

lemma storeField_cmdlineNeeds: "cmdlineNeeds (storeField F x c) = cmdlineNeeds c"
  by (cases F; cases x) simp_all

lemma object_cmdlineNeeds: "object kvs c e = (c', e') \<Longrightarrow> cmdlineNeeds c' = cmdlineNeeds c"
proof (induction kvs arbitrary: c e)
  case Nil
  then show ?case by simp
next
  case (Cons kv kvs)
  obtain k v where kv: "kv = (k, v)" by (cases kv)
  show ?case
  proof (cases "lookupField k")
    case None
    with Cons kv show ?thesis by simp
  next
    case (Some F)
    obtain r bad where d: "decodeValue (kindOf F) v = (r, bad)"
      by (cases "decodeValue (kindOf F) v")
    from Cons.prems kv Some d
    have "cmdlineNeeds c' = cmdlineNeeds (case r of None \<Rightarrow> c | Some x \<Rightarrow> storeField F x c)"
      by (auto dest: Cons.IH)
    then show ?thesis
      by (cases r) (simp_all add: storeField_cmdlineNeeds)
  qed
qed

lemma Unmarshal_cmdlineNeeds: "Unmarshal t c = (c', e) \<Longrightarrow> cmdlineNeeds c' = cmdlineNeeds c"
  by (cases "(t, c)" rule: Unmarshal.cases) (auto dest: object_cmdlineNeeds)

lemma callFunc_cmdlineNeeds:
  "callFunc fs om fn c args = HRet c' e \<Longrightarrow> cmdlineNeeds c' = cmdlineNeeds c"
  by (cases fn)
     (auto simp: handler_defs dest: Unmarshal_cmdlineNeeds
           split: list.splits sum.splits if_splits fileResult.splits prod.splits)

lemma effect_cmdlineNeeds: "cmdlineNeeds (effect fs om fn args c) = cmdlineNeeds c"
  by (auto simp: effect_def dest: callFunc_cmdlineNeeds split: hres.splits)

lemma applyAll_cmdlineNeeds: "cmdlineNeeds (applyAll fs om occs c) = cmdlineNeeds c"
  by (induction occs arbitrary: c) (auto simp: effect_cmdlineNeeds)

text \<open>The error of the overlay does not depend on the configuration it is laid on.\<close>

lemma object_error: "snd (object kvs c e) = snd (object kvs c' e)"
proof (induction kvs arbitrary: c c' e)
  case Nil
  show ?case by simp
next
  case (Cons kv kvs)
  obtain k v where kv: "kv = (k, v)" by (cases kv)
  show ?case
  proof (cases "lookupField k")
    case None
    with Cons.IH kv show ?thesis by simp
  next
    case (Some F)
    obtain r bad where d: "decodeValue (kindOf F) v = (r, bad)"
      by (cases "decodeValue (kindOf F) v")
    show ?thesis
      unfolding kv using Some d
      by (simp add: Cons.IH [where c = "case r of None \<Rightarrow> c | Some x \<Rightarrow> storeField F x c"
                               and c' = "case r of None \<Rightarrow> c' | Some x \<Rightarrow> storeField F x c'"])
  qed
qed

lemma Unmarshal_error: "snd (Unmarshal t c) = snd (Unmarshal t c')"
  by (cases "(t, c)" rule: Unmarshal.cases) (simp_all add: object_error [where c = c and c' = c'])

lemma succeeds_any_conf:
  "succeeds fs om fn args \<longleftrightarrow> (\<exists>c'. callFunc fs om fn c args = HRet c' None)"
proof (cases fn)
  case FuncJconf
  show ?thesis
  proof (cases args)
    case Nil
    with FuncJconf show ?thesis by (simp add: succeeds_def funcJconf_def)
  next
    case (Cons p ps)
    show ?thesis
    proof (cases "fs p")
      case OpenFails
      with FuncJconf Cons show ?thesis by (simp add: succeeds_def funcJconf_def)
    next
      case (Opened t)
      have "snd (Unmarshal t (defaultConfig om)) = snd (Unmarshal t c)"
        by (rule Unmarshal_error)
      with FuncJconf Cons Opened show ?thesis
        by (cases "Unmarshal t (defaultConfig om)"; cases "Unmarshal t c")
           (auto simp: succeeds_def funcJconf_def split: option.splits)
    qed
  qed
qed (auto simp: succeeds_def handler_defs split: list.splits sum.splits)

lemma succeeds_effect:
  "succeeds fs om fn args \<Longrightarrow> callFunc fs om fn c args = HRet (effect fs om fn args c) None"
  using succeeds_any_conf [of fs om fn args c] by (auto simp: effect_def)

lemma not_succeeds_nil: "\<not> succeeds fs om fn []"
  using succeeds_any_conf [of fs om fn "[]" "defaultConfig om"] callFunc_nil by blast

section \<open>Lemmas on the heap\<close>

lemma mapassign_same: "map_of (mapassign h a k v a) = (map_of (h a))(k \<mapsto> v)"
  by (simp add: mapassign_def update_conv')

lemma mapassign_keys: "fst ` set (mapassign h a k v a) = insert k (fst ` set (h a))"
  by (simp add: mapassign_def dom_update)

lemma mapassign_other: "b \<noteq> a \<Longrightarrow> mapassign h a k v b = h b"
  by (simp add: mapassign_def)

lemma allNeeds_iff: "allNeeds m \<longleftrightarrow> (\<forall>k \<in> fst ` set m. map_of m k = Some True)"
  by (simp add: allNeeds_def list_all_iff)

lemma markAll_lookup:
  "map_of (markAll a ds h a) k =
     (if k \<in> switchStr ` {d \<in> set ds. needed d} then Some True else map_of (h a) k)"
  by (induction ds arbitrary: h) (auto simp: mapassign_same)

lemma markAll_keys:
  "fst ` set (markAll a ds h a) = fst ` set (h a) \<union> switchStr ` {d \<in> set ds. needed d}"
  by (induction ds arbitrary: h) (auto simp: mapassign_keys)

lemma markAll_other: "b \<noteq> a \<Longrightarrow> markAll a ds h b = h b"
  by (induction ds arbitrary: h) (auto simp: mapassign_other)

lemma markAll_append: "markAll a (ds @ es) h = markAll a es (markAll a ds h)"
  by (induction ds arbitrary: h) auto

lemma resetNeeds_lookup:
  "map_of (resetNeeds ds c h (cmdlineNeeds c)) k =
     (if k \<in> switchStr ` {d \<in> set ds. needed d} then Some False
      else map_of (h (cmdlineNeeds c)) k)"
  by (induction ds arbitrary: h) (auto simp: mapassign_same)

lemma resetNeeds_keys:
  "fst ` set (resetNeeds ds c h (cmdlineNeeds c)) =
     fst ` set (h (cmdlineNeeds c)) \<union> switchStr ` {d \<in> set ds. needed d}"
  by (induction ds arbitrary: h) (auto simp: mapassign_keys)

lemma resetNeeds_other: "b \<noteq> cmdlineNeeds c \<Longrightarrow> resetNeeds ds c h b = h b"
  by (induction ds arbitrary: h) (auto simp: mapassign_other)

section \<open>The registry and a few numerals\<close>

lemma cmdLineItemInit_list:
  "cmdLineItemInit =
    [\<lparr>func = FuncOutType, switchStr = ''-j'', helpStr = ''Force Json output with subsystems data'', itemId = 1, hasArg = True, needed = False\<rparr>,
     \<lparr>func = FuncSymbol, switchStr = ''-s'', helpStr = ''Specifies symbol'', itemId = 2, hasArg = True, needed = True\<rparr>,
     \<lparr>func = FuncInstance, switchStr = ''-i'', helpStr = ''Specifies instance'', itemId = 3, hasArg = True, needed = True\<rparr>,
     \<lparr>func = FuncJconf, switchStr = ''-f'', helpStr = ''Specifies config file'', itemId = 4, hasArg = True, needed = False\<rparr>,
     \<lparr>func = FuncDBUser, switchStr = ''-u'', helpStr = ''Forces use specified database userid'', itemId = 5, hasArg = True, needed = False\<rparr>,
     \<lparr>func = FuncDBPass, switchStr = ''-p'', helpStr = ''Forces use specified password'', itemId = 6, hasArg = True, needed = False\<rparr>,
     \<lparr>func = FuncDBHost, switchStr = ''-d'', helpStr = ''Forces use specified DBHost'', itemId = 7, hasArg = True, needed = False\<rparr>,
     \<lparr>func = FuncDBPort, switchStr = ''-p'', helpStr = ''Forces use specified DBPort'', itemId = 8, hasArg = True, needed = False\<rparr>,
     \<lparr>func = FuncMode, switchStr = ''-m'', helpStr = ''Sets display mode 2=subsystems,1=all'', itemId = 9, hasArg = True, needed = False\<rparr>,
     \<lparr>func = FuncDepth, switchStr = ''-x'', helpStr = ''Specify Max depth in call flow exploration'', itemId = 10, hasArg = True, needed = False\<rparr>,
     \<lparr>func = FuncHelp, switchStr = ''-h'', helpStr = ''This help'', itemId = 11, hasArg = False, needed = False\<rparr>]"
  by (simp add: cmdLineItemInit_def pushCmdLineItem_def)

lemmas Atoi_defs = Atoi_def parseSigned_def isDigit_def digitVal_def maxUint64_def

lemma Atoi_0: "Atoi ''0'' = Inr 0"
  by (simp add: Atoi_defs)

lemma Atoi_1: "Atoi ''1'' = Inr 1"
  by (simp add: Atoi_defs)

lemma Atoi_2: "Atoi ''2'' = Inr 2"
  by (simp add: Atoi_defs)

lemma Atoi_3: "Atoi ''3'' = Inr 3"
  by (simp add: Atoi_defs)

lemma Atoi_99: "Atoi ''99'' = Inr 99"
  by (simp add: Atoi_defs)

lemma Atoi_abc: "Atoi ''abc'' = Inl (NumError ''abc'' ErrSyntax)"
  by (simp add: Atoi_defs)

section \<open>The scan of argsParse and the two-state machine\<close>

text \<open>The inner loop finds the first descriptor with the token and does what
  \<open>matchSwitch\<close> says: a handler called without an argument never returns nil, so the
  loop never carries on after a match.\<close>

lemma scanLines_find:
  "scanLines fs om tok lines f c h =
     (case findSwitch lines tok of
        None \<Rightarrow> Next False f c h
      | Some d \<Rightarrow> matchSwitch fs om d c h)"
proof (induction lines)
  case Nil
  show ?case by (simp add: findSwitch_def)
next
  case (Cons d ds)
  show ?case
  proof (cases "switchStr d = tok")
    case True
    show ?thesis
    proof (cases "callFunc fs om (func d) c []")
      case HPanic
      with True show ?thesis by (simp add: findSwitch_def matchSwitch_def Let_def)
    next
      case (HRet c' e)
      with callFunc_nil [of fs om "func d" c c'] obtain err where "e = Some err"
        by (cases e) auto
      with True HRet show ?thesis by (simp add: findSwitch_def matchSwitch_def Let_def)
    qed
  next
    case False
    with Cons show ?thesis by (simp add: findSwitch_def)
  qed
qed

lemma parseArgs_append:
  "parseArgs fs om lines (pre @ post) extra f c h =
     (case parseArgs fs om lines pre extra f c h of
        Next extra' f' c' h' \<Rightarrow> parseArgs fs om lines post extra' f' c' h'
      | Stop r \<Rightarrow> Stop r)"
proof (induction pre arbitrary: extra f c h)
  case Nil
  show ?case by simp
next
  case (Cons t pre)
  show ?case
  proof (cases extra)
    case False
    then show ?thesis
      by (cases "scanLines fs om t lines f c h") (simp_all add: Cons.IH)
  next
    case True
    then show ?thesis
      by (cases f; cases "callFunc fs om (the f) c [t]")
         (auto simp: Cons.IH split: option.splits)
  qed
qed

lemma findSwitch_token: "findSwitch lines t = Some d \<Longrightarrow> switchStr d = t \<and> d \<in> set lines"
  by (auto simp: findSwitch_def find_Some_iff)

lemma matchSwitch_hasArg:
  "hasArg d \<Longrightarrow> matchSwitch fs om d c h = Next True (Some (func d)) c (markAll (cmdlineNeeds c) [d] h)"
  by (simp add: matchSwitch_def)

lemma parseArgs_run:
  "allSucceed fs om (occurrences lines toks) \<Longrightarrow>
   \<exists>f'. parseArgs fs om lines toks False f c h =
          Next (endsMidArgument lines toks) f' (applyAll fs om (occurrences lines toks) c)
               (markAll (cmdlineNeeds c) (recognized lines toks) h)"
proof (induction lines toks arbitrary: f c h rule: occurrences.induct)
  case (1 lines)
  show ?case by (simp add: endsMidArgument_def recognized_def)
next
  case (2 lines t)
  show ?case
  proof (cases "findSwitch lines t")
    case None
    then show ?thesis by (simp add: scanLines_find endsMidArgument_def recognized_def)
  next
    case (Some d)
    with 2 have "hasArg d"
      by (auto simp: allSucceed_def not_succeeds_nil split: if_splits)
    with Some show ?thesis
      by (simp add: scanLines_find endsMidArgument_def recognized_def matchSwitch_hasArg)
  qed
next
  case (3 lines t a ts)
  show ?case
  proof (cases "findSwitch lines t")
    case None
    with 3 show ?thesis
      by (simp add: scanLines_find endsMidArgument_def recognized_def)
  next
    case (Some d)
    with "3.prems" have ha: "hasArg d"
      by (auto simp: allSucceed_def not_succeeds_nil split: if_splits)
    from "3.prems" Some ha have s: "succeeds fs om (func d) [a]"
      and rest: "allSucceed fs om (occurrences lines ts)"
      by (simp_all add: allSucceed_def)
    from "3.IH"(2) [OF Some ha rest, of "Some (func d)" "effect fs om (func d) [a] c"
                     "markAll (cmdlineNeeds c) [d] h"]
    obtain f' where
      "parseArgs fs om lines ts False (Some (func d)) (effect fs om (func d) [a] c)
         (markAll (cmdlineNeeds c) [d] h) =
       Next (endsMidArgument lines ts) f'
         (applyAll fs om (occurrences lines ts) (effect fs om (func d) [a] c))
         (markAll (cmdlineNeeds c) (recognized lines ts) (markAll (cmdlineNeeds c) [d] h))"
      by (auto simp: effect_cmdlineNeeds)
    with Some ha s show ?thesis
      by (simp add: scanLines_find matchSwitch_hasArg succeeds_effect endsMidArgument_def
                    recognized_def)
  qed
qed

lemma parseArgs_fails:
  "\<not> allSucceed fs om (occurrences lines toks) \<Longrightarrow>
   \<exists>r. parseArgs fs om lines toks False f c h = Stop r"
proof (induction lines toks arbitrary: f c h rule: occurrences.induct)
  case (1 lines)
  then show ?case by (simp add: allSucceed_def)
next
  case (2 lines t)
  then show ?case
    by (cases "findSwitch lines t")
       (auto simp: allSucceed_def scanLines_find matchSwitch_def split: if_splits hres.splits)
next
  case (3 lines t a ts)
  show ?case
  proof (cases "findSwitch lines t")
    case None
    with 3 show ?thesis by (simp add: scanLines_find)
  next
    case (Some d)
    show ?thesis
    proof (cases "hasArg d")
      case False
      with Some show ?thesis
        by (auto simp: scanLines_find matchSwitch_def split: hres.splits)
    next
      case True
      show ?thesis
      proof (cases "succeeds fs om (func d) [a]")
        case False
        then have "\<And>c'. callFunc fs om (func d) c [a] \<noteq> HRet c' None"
          using succeeds_any_conf [of fs om "func d" "[a]" c] by auto
        with Some True show ?thesis
          by (auto simp: scanLines_find matchSwitch_hasArg split: hres.splits option.splits)
      next
        case s: True
        with "3.prems" Some True have "\<not> allSucceed fs om (occurrences lines ts)"
          by (simp add: allSucceed_def)
        from "3.IH"(2) [OF Some True this] Some True s show ?thesis
          by (simp add: scanLines_find matchSwitch_hasArg succeeds_effect)
      qed
    qed
  qed
qed

text \<open>Every return from inside the loops hands back the default configuration with an error.\<close>

lemma matchSwitch_stop:
  "matchSwitch fs om d c h = Stop (Return c' e h') \<Longrightarrow> c' = defaultConfig om \<and> e \<noteq> None"
  using callFunc_nil [of fs om "func d" c]
  by (auto simp: matchSwitch_def Let_def split: if_splits hres.splits)

lemma scanLines_stop:
  "scanLines fs om t lines f c h = Stop (Return c' e h') \<Longrightarrow> c' = defaultConfig om \<and> e \<noteq> None"
  by (auto simp: scanLines_find dest: matchSwitch_stop split: option.splits)

lemma parseArgs_stop:
  "parseArgs fs om lines toks extra f c h = Stop (Return c' e h') \<Longrightarrow>
   c' = defaultConfig om \<and> e \<noteq> None"
proof (induction toks arbitrary: extra f c h)
  case Nil
  then show ?case by simp
next
  case (Cons t toks)
  show ?case
  proof (cases extra)
    case False
    with Cons.prems show ?thesis
      by (cases "scanLines fs om t lines f c h")
         (auto dest: Cons.IH scanLines_stop)
  next
    case True
    with Cons.prems show ?thesis
      by (auto dest: Cons.IH split: option.splits hres.splits)
  qed
qed

section \<open>The heap after a run\<close>

text \<open>Whether a run ends well or not, the heap it leaves is the heap it found with the
  tracker entries of some descriptors of the registry set to true.\<close>

lemma scanLines_heap:
  assumes "scanLines fs om t lines f c h = Next e f' c' h' \<or>
           scanLines fs om t lines f c h = Stop (Return c' err h')"
  shows "\<exists>ds. set ds \<subseteq> set lines \<and> h' = markAll (cmdlineNeeds c) ds h"
proof (cases "findSwitch lines t")
  case None
  with assms have "h' = markAll (cmdlineNeeds c) [] h"
    by (auto simp: scanLines_find)
  then show ?thesis by (intro exI [of _ "[]"]) simp
next
  case (Some d)
  with assms have "h' = markAll (cmdlineNeeds c) [d] h"
    by (auto simp: scanLines_find matchSwitch_def Let_def split: if_splits hres.splits)
  moreover from Some have "d \<in> set lines" by (simp add: findSwitch_token)
  ultimately show ?thesis by (intro exI [of _ "[d]"]) simp
qed

lemma scanLines_conf:
  "scanLines fs om t lines f c h = Next e f' c' h' \<Longrightarrow> c' = c"
  by (auto simp: scanLines_find matchSwitch_def Let_def split: option.splits if_splits hres.splits)

lemma parseArgs_heap:
  assumes "parseArgs fs om lines toks extra f c h = Next e f' c' h' \<or>
           parseArgs fs om lines toks extra f c h = Stop (Return c' err h')"
  shows "\<exists>ds. set ds \<subseteq> set lines \<and> h' = markAll (cmdlineNeeds c) ds h"
  using assms
proof (induction toks arbitrary: extra f c h)
  case Nil
  then have "h' = markAll (cmdlineNeeds c) [] h" by auto
  then show ?case by (intro exI [of _ "[]"]) simp
next
  case (Cons t toks)
  show ?case
  proof (cases extra)
    case False
    show ?thesis
    proof (cases "scanLines fs om t lines f c h")
      case (Stop r)
      with Cons.prems False have "scanLines fs om t lines f c h = Stop (Return c' err h')"
        by auto
      then show ?thesis using scanLines_heap by blast
    next
      case (Next e1 f1 c1 h1)
      then have c1: "c1 = c" by (rule scanLines_conf)
      from Next scanLines_heap [of fs om t lines f c h e1 f1 c1 h1]
      obtain ds where ds: "set ds \<subseteq> set lines" "h1 = markAll (cmdlineNeeds c) ds h"
        by blast
      from Cons.prems False Next
      have "parseArgs fs om lines toks e1 f1 c1 h1 = Next e f' c' h' \<or>
            parseArgs fs om lines toks e1 f1 c1 h1 = Stop (Return c' err h')"
        by simp
      from Cons.IH [OF this] c1 obtain es where
        "set es \<subseteq> set lines" "h' = markAll (cmdlineNeeds c) es h1"
        by auto
      with ds show ?thesis
        by (intro exI [of _ "ds @ es"]) (simp add: markAll_append)
    qed
  next
    case True
    show ?thesis
    proof (cases f)
      case None
      with Cons.prems True show ?thesis by simp
    next
      case (Some fn)
      show ?thesis
      proof (cases "callFunc fs om fn c [t]")
        case HPanic
        with Cons.prems True Some show ?thesis by simp
      next
        case (HRet c1 e1)
        show ?thesis
        proof (cases e1)
          case (Some er)
          with Cons.prems True \<open>f = Some fn\<close> HRet have "h' = markAll (cmdlineNeeds c) [] h"
            by simp
          then show ?thesis by (intro exI [of _ "[]"]) simp
        next
          case None
          with Cons.prems True \<open>f = Some fn\<close> HRet
          have "parseArgs fs om lines toks False f c1 h = Next e f' c' h' \<or>
                parseArgs fs om lines toks False f c1 h = Stop (Return c' err h')"
            by simp
          from Cons.IH [OF this] callFunc_cmdlineNeeds [OF HRet] show ?thesis by simp
        qed
      qed
    qed
  qed
qed

lemma parseArgs_conf:
  "parseArgs fs om lines toks extra f c h = Next e f' c' h' \<Longrightarrow> cmdlineNeeds c' = cmdlineNeeds c"
proof (induction toks arbitrary: extra f c h)
  case Nil
  then show ?case by simp
next
  case (Cons t toks)
  show ?case
  proof (cases extra)
    case False
    with Cons.prems show ?thesis
      by (cases "scanLines fs om t lines f c h")
         (auto dest: Cons.IH scanLines_conf)
  next
    case True
    with Cons.prems show ?thesis
      by (auto dest!: Cons.IH callFunc_cmdlineNeeds split: option.splits hres.splits)
  qed
qed

text \<open>The three ways \<open>argsParse\<close> returns.\<close>

lemma argsParse_cases:
  assumes "argsParse fs om lines osArgs h = Return c e h'"
  obtains (handler) prog args where "osArgs = prog # args"
      "parseArgs fs om lines args False None (defaultConfig om) (resetNeeds lines (defaultConfig om) h)
         = Stop (Return c e h')"
  | (dangling) prog args f c1 where "osArgs = prog # args"
      "parseArgs fs om lines args False None (defaultConfig om) (resetNeeds lines (defaultConfig om) h)
         = Next True f c1 h'"
      "c = defaultConfig om" "e = Some (ErrorsNew ''missing switch arg'')"
  | (resolved) prog args f where "osArgs = prog # args"
      "parseArgs fs om lines args False None (defaultConfig om) (resetNeeds lines (defaultConfig om) h)
         = Next False f c h'"
      "allNeeds (h' (cmdlineNeeds c))" "e = None"
  | (missing) prog args f c1 where "osArgs = prog # args"
      "parseArgs fs om lines args False None (defaultConfig om) (resetNeeds lines (defaultConfig om) h)
         = Next False f c1 h'"
      "\<not> allNeeds (h' (cmdlineNeeds c1))"
      "c = defaultConfig om" "e = Some (ErrorsNew ''missing needed arg'')"
  using assms
  by (auto simp: argsParse_def Let_def split: list.splits scan.splits if_splits)

lemma argsParse_heap:
  assumes "argsParse fs om lines osArgs h = Return c e h'"
  shows "\<exists>ds. set ds \<subseteq> set lines \<and>
           h' = markAll needsAddr ds (resetNeeds lines (defaultConfig om) h)"
proof -
  have a: "cmdlineNeeds (defaultConfig om) = needsAddr" by (simp add: defaultConfig_def)
  from assms show ?thesis
    by (cases rule: argsParse_cases) (use parseArgs_heap a in metis)+
qed

lemma argsParse_conf:
  assumes "argsParse fs om lines osArgs h = Return c e h'"
  shows "cmdlineNeeds c = needsAddr"
proof -
  have a: "cmdlineNeeds (defaultConfig om) = needsAddr" by (simp add: defaultConfig_def)
  from assms show ?thesis
    by (cases rule: argsParse_cases) (auto simp: a dest: parseArgs_stop parseArgs_conf)
qed


section \<open>Runs in which no handler fails\<close>

lemma recognized_subset:
  "d \<in> set (recognized lines toks) \<Longrightarrow> switchStr d \<in> set toks \<and> d \<in> set lines"
proof (induction lines toks rule: occurrences.induct)
  case (1 lines)
  then show ?case by (simp add: recognized_def)
next
  case (2 lines t)
  then show ?case
    by (auto simp: recognized_def dest: findSwitch_token split: option.splits if_splits)
next
  case (3 lines t a ts)
  show ?case
  proof (cases "findSwitch lines t")
    case None
    with 3 show ?thesis by (auto simp: recognized_def)
  next
    case (Some e)
    with 3 show ?thesis
      by (cases "hasArg e") (auto simp: recognized_def dest: findSwitch_token)
  qed
qed

lemma needsAddr_default: "cmdlineNeeds (defaultConfig om) = needsAddr"
  by (simp add: defaultConfig_def)

text \<open>A run in which no handler fails and which does not end awaiting an argument.\<close>

lemma argsParse_run:
  assumes "allSucceed fs om (occurrences lines toks)" and "\<not> endsMidArgument lines toks"
  shows "argsParse fs om lines (prog # toks) h =
           (let h' = markAll needsAddr (recognized lines toks) (resetNeeds lines (defaultConfig om) h)
            in if allNeeds (h' needsAddr)
               then Return (applyAll fs om (occurrences lines toks) (defaultConfig om)) None h'
               else Return (defaultConfig om) (Some (ErrorsNew ''missing needed arg'')) h')"
proof -
  from parseArgs_run [OF assms(1), of None "defaultConfig om" "resetNeeds lines (defaultConfig om) h"]
  obtain f' where
    "parseArgs fs om lines toks False None (defaultConfig om) (resetNeeds lines (defaultConfig om) h) =
       Next False f' (applyAll fs om (occurrences lines toks) (defaultConfig om))
         (markAll needsAddr (recognized lines toks) (resetNeeds lines (defaultConfig om) h))"
    using assms(2) by (auto simp: needsAddr_default)
  then show ?thesis
    by (simp add: argsParse_def Let_def applyAll_cmdlineNeeds needsAddr_default)
qed

lemma tracker_after_run:
  "map_of (markAll needsAddr ds (resetNeeds lines (defaultConfig om) h) needsAddr) k =
     (if k \<in> switchStr ` {d \<in> set ds. needed d} then Some True
      else if k \<in> switchStr ` {d \<in> set lines. needed d} then Some False
      else map_of (h needsAddr) k)"
  using resetNeeds_lookup [of lines "defaultConfig om" h k]
  by (simp add: markAll_lookup needsAddr_default)

lemma tracker_keys_after_run:
  "fst ` set (markAll needsAddr ds (resetNeeds lines (defaultConfig om) h) needsAddr) =
     fst ` set (h needsAddr) \<union> switchStr ` {d \<in> set lines. needed d}
       \<union> switchStr ` {d \<in> set ds. needed d}"
  using resetNeeds_keys [of lines "defaultConfig om" h]
  by (simp add: markAll_keys needsAddr_default)

lemma missing_run:
  assumes "allSucceed fs om (occurrences lines toks)" and "\<not> endsMidArgument lines toks"
    and "d \<in> set lines" and "needed d" and "switchStr d \<notin> set toks"
  shows "argsParse fs om lines (prog # toks) h =
           Return (defaultConfig om) (Some (ErrorsNew ''missing needed arg''))
             (markAll needsAddr (recognized lines toks) (resetNeeds lines (defaultConfig om) h))"
proof -
  let ?h = "markAll needsAddr (recognized lines toks) (resetNeeds lines (defaultConfig om) h)"
  from assms(5) have "switchStr d \<notin> switchStr ` {e \<in> set (recognized lines toks). needed e}"
    by (auto dest: recognized_subset)
  with assms(3,4) have "map_of (?h needsAddr) (switchStr d) = Some False"
    by (auto simp: tracker_after_run)
  moreover from assms(3,4) have "switchStr d \<in> fst ` set (?h needsAddr)"
    by (auto simp: tracker_keys_after_run)
  ultimately have "\<not> allNeeds (?h needsAddr)"
    unfolding allNeeds_iff by (metis option.inject)
  with argsParse_run [OF assms(1,2)] show ?thesis by (simp add: Let_def)
qed

section \<open>What follows a prefix that was scanned without failure\<close>

lemma argsParse_after_prefix:
  assumes "allSucceed fs om (occurrences lines pre)" and "\<not> endsMidArgument lines pre"
  shows "\<exists>f'. argsParse fs om lines (prog # pre @ post) h =
           (case parseArgs fs om lines post False f'
                   (applyAll fs om (occurrences lines pre) (defaultConfig om))
                   (markAll needsAddr (recognized lines pre) (resetNeeds lines (defaultConfig om) h)) of
              Stop r \<Rightarrow> r
            | Next extra f conf' h' \<Rightarrow>
                if extra
                then Return (defaultConfig om) (Some (ErrorsNew ''missing switch arg'')) h'
                else if allNeeds (h' (cmdlineNeeds conf'))
                then Return conf' None h'
                else Return (defaultConfig om) (Some (ErrorsNew ''missing needed arg'')) h')"
proof -
  from parseArgs_run [OF assms(1), of None "defaultConfig om" "resetNeeds lines (defaultConfig om) h"]
  obtain f' where
    "parseArgs fs om lines pre False None (defaultConfig om) (resetNeeds lines (defaultConfig om) h) =
       Next False f' (applyAll fs om (occurrences lines pre) (defaultConfig om))
         (markAll needsAddr (recognized lines pre) (resetNeeds lines (defaultConfig om) h))"
    using assms(2) by (auto simp: needsAddr_default)
  then show ?thesis
    by (intro exI [of _ f']) (simp add: argsParse_def Let_def parseArgs_append)
qed

lemma help_run:
  assumes "allSucceed fs om (occurrences lines pre)" and "\<not> endsMidArgument lines pre"
    and "findSwitch lines t = Some d" and "func d = FuncHelp" and "\<not> hasArg d" and "\<not> needed d"
  shows "argsParse fs om lines (prog # pre @ t # post) h =
           Return (defaultConfig om) (Some (ErrorsNew ''command help''))
             (markAll needsAddr (recognized lines pre) (resetNeeds lines (defaultConfig om) h))"
  using argsParse_after_prefix [OF assms(1,2), of prog "t # post" h] assms(3-)
  by (auto simp: scanLines_find matchSwitch_def funcHelp_def)

lemma dangling_run:
  assumes "allSucceed fs om (occurrences lines pre)" and "\<not> endsMidArgument lines pre"
    and "findSwitch lines t = Some d" and "hasArg d" and "needed d"
  shows "argsParse fs om lines (prog # pre @ [t]) h =
           Return (defaultConfig om) (Some (ErrorsNew ''missing switch arg''))
             (mapassign (markAll needsAddr (recognized lines pre)
                           (resetNeeds lines (defaultConfig om) h)) needsAddr t True)"
  using argsParse_after_prefix [OF assms(1,2), of prog "[t]" h] assms(3-)
  by (auto simp: scanLines_find matchSwitch_def applyAll_cmdlineNeeds needsAddr_default
           dest: findSwitch_token)

lemma failing_argument_run:
  assumes "allSucceed fs om (occurrences lines pre)" and "\<not> endsMidArgument lines pre"
    and "findSwitch lines t = Some d" and "hasArg d" and "needed d"
    and "callFunc fs om (func d) (applyAll fs om (occurrences lines pre) (defaultConfig om)) [a]
           = HRet c' (Some err)"
  shows "argsParse fs om lines (prog # pre @ t # a # post) h =
           Return (defaultConfig om) (Some err)
             (mapassign (markAll needsAddr (recognized lines pre)
                           (resetNeeds lines (defaultConfig om) h)) needsAddr t True)"
  using argsParse_after_prefix [OF assms(1,2), of prog "t # a # post" h] assms(3-)
  by (auto simp: scanLines_find matchSwitch_def applyAll_cmdlineNeeds needsAddr_default
           dest: findSwitch_token)

text \<open>No handler returns the error of the final check.\<close>

lemma object_error_kind:
  "object kvs c e = (c', e') \<Longrightarrow> e' = e \<or> (\<exists>k. e' = Some (UnmarshalTypeError k))"
proof (induction kvs arbitrary: c e)
  case Nil
  then show ?case by simp
next
  case (Cons kv kvs)
  obtain k v where kv: "kv = (k, v)" by (cases kv)
  show ?case
  proof (cases "lookupField k")
    case None
    with Cons kv show ?thesis by simp
  next
    case (Some F)
    obtain r bad where d: "decodeValue (kindOf F) v = (r, bad)"
      by (cases "decodeValue (kindOf F) v")
    from Cons.prems kv Some d Cons.IH show ?thesis
      by (fastforce split: if_splits)
  qed
qed

lemma Unmarshal_error_kind:
  "Unmarshal t c = (c', Some e) \<Longrightarrow> e = SyntaxError \<or> (\<exists>k. e = UnmarshalTypeError k)"
  by (cases "(t, c)" rule: Unmarshal.cases) (auto dest: object_error_kind)

lemma callFunc_error_kind:
  "callFunc fs om fn c args = HRet c' (Some e) \<Longrightarrow>
   e \<noteq> ErrorsNew ''missing needed arg'' \<and> e \<noteq> ErrorsNew ''missing switch arg''"
  by (cases fn)
     (auto simp: handler_defs Atoi_def parseSigned_def dest: Unmarshal_error_kind
           split: list.splits sum.splits if_splits fileResult.splits prod.splits)

section \<open>Runs on concrete command lines\<close>

lemma Atoi_minus1: "Atoi ''-1'' = Inr (- 1)"
  by (simp add: Atoi_defs)

lemmas run_simps =
  argsParse_def cmdLineItemInit_list handler_defs mapassign_def allNeeds_def
  defaultConfig_def needsAddr_def initHeap_def specModes_def noFiles_def DBPortNumber_def

lemmas scan_simps =
  allSucceed_def endsMidArgument_def recognized_def findSwitch_def succeeds_def effect_def

lemma findSwitch_help:
  "findSwitch cmdLineItemInit ''-h'' =
     Some \<lparr>func = FuncHelp, switchStr = ''-h'', helpStr = ''This help'', itemId = 11,
            hasArg = False, needed = False\<rparr>"
  by (simp add: findSwitch_def cmdLineItemInit_list)

section \<open>The claims\<close>



text \<open>
  C3. When no handler fails, the stream does not end where an argument is due, and the
  token of some mandatory descriptor of the registry occurs nowhere in the stream,
  \<^verbatim>\<open>argsParse\<close> returns the default configuration with the error "missing needed arg",
  whatever the other tokens are. The registry and the heap are arbitrary.
\<close>

theorem missing_mandatory_switch:
  assumes "allSucceed fs om (occurrences lines toks)" and "\<not> endsMidArgument lines toks"
    and "d \<in> set lines" and "needed d" and "switchStr d \<notin> set toks"
  shows "argsParse fs om lines (prog # toks) h =
           Return (defaultConfig om) (Some (ErrorsNew ''missing needed arg''))
             (markAll needsAddr (recognized lines toks) (resetNeeds lines (defaultConfig om) h))"
  using assms by (rule missing_run)

theorem missing_mandatory_switch_witness:
  "argsParse noFiles specModes cmdLineItemInit
     [''nav'', ''-s'', ''foo'', ''-x'', ''3'', ''-u'', ''me''] initHeap =
     Return (defaultConfig specModes) (Some (ErrorsNew ''missing needed arg''))
       (initHeap(needsAddr := [(''-s'', True), (''-i'', False)]))"
  using missing_mandatory_switch
    [of noFiles specModes cmdLineItemInit "[''-s'', ''foo'', ''-x'', ''3'', ''-u'', ''me'']"
        "cmdLineItemInit ! 2" "''nav''" initHeap]
  by (simp add: scan_simps run_simps Atoi_3)

text \<open>
  C5. The display-mode handler succeeds on the arguments "0" and "1", both within the
  enumerated range of supported modes, and fails with a validation error on "99", which
  is outside the range. The range that \<^verbatim>\<open>funcMode\<close> checks runs from \<^verbatim>\<open>printAll\<close> up to,
  and not including, \<^verbatim>\<open>OutModeLast\<close>; the two constants are parameters. Whenever 0 and 1
  lie in that range and 99 does not, the handler stores the mode and returns no error
  on "0" and on "1", and returns the error "unsupported mode", leaving the
  configuration as it was, on "99".
\<close>

theorem funcMode_range:
  assumes "printAll om \<le> 0" and "1 < OutModeLast om" and "OutModeLast om \<le> 99"
  shows "funcMode om conf [''0''] = HRet (conf\<lparr>Mode := 0\<rparr>) None
       \<and> funcMode om conf [''1''] = HRet (conf\<lparr>Mode := 1\<rparr>) None
       \<and> funcMode om conf [''99''] = HRet conf (Some (ErrorsNew ''unsupported mode''))"
  using assms by (simp add: funcMode_def Atoi_0 Atoi_1 Atoi_99)

theorem funcMode_range_witness:
  "funcMode specModes (defaultConfig specModes) [''0''] =
     HRet ((defaultConfig specModes)\<lparr>Mode := 0\<rparr>) None
   \<and> funcMode specModes (defaultConfig specModes) [''1''] =
       HRet ((defaultConfig specModes)\<lparr>Mode := 1\<rparr>) None
   \<and> funcMode specModes (defaultConfig specModes) [''99''] =
       HRet (defaultConfig specModes) (Some (ErrorsNew ''unsupported mode''))"
  using funcMode_range [of specModes "defaultConfig specModes"]
  by (simp add: specModes_def)

text \<open>
  C6. For every token sequence that contains "-h" at any position, \<^verbatim>\<open>argsParse\<close> returns
  the help error and processes no further token. As amended: when "-h" stands where a
  switch is expected (every argument-taking switch before it has its argument) and no
  handler has failed before it, \<^verbatim>\<open>argsParse\<close> returns the default configuration with the
  error "command help", and neither the result nor the heap depends on the tokens after
  it. A "-h" that follows an argument-taking switch is that switch's argument.
\<close>

theorem help_in_switch_position:
  assumes "allSucceed fs om (occurrences cmdLineItemInit pre)"
    and "\<not> endsMidArgument cmdLineItemInit pre"
  shows "argsParse fs om cmdLineItemInit (prog # pre @ ''-h'' # post) h =
           Return (defaultConfig om) (Some (ErrorsNew ''command help''))
             (markAll needsAddr (recognized cmdLineItemInit pre)
                (resetNeeds cmdLineItemInit (defaultConfig om) h))"
  by (rule help_run [OF assms findSwitch_help]) simp_all

theorem help_in_switch_position_witness:
  "argsParse noFiles specModes cmdLineItemInit
     [''nav'', ''-s'', ''foo'', ''-h'', ''-i'', ''abc''] initHeap =
     Return (defaultConfig specModes) (Some (ErrorsNew ''command help''))
       (initHeap(needsAddr := [(''-s'', True), (''-i'', False)]))"
  using help_in_switch_position
    [of noFiles specModes "[''-s'', ''foo'']" "''nav''" "[''-i'', ''abc'']" initHeap]
  by (simp add: scan_simps run_simps)

text \<open>The command line \<^verbatim>\<open>nav -s -h -i 1\<close> contains "-h" and resolves without error: the
  symbol is "-h".\<close>

theorem help_as_argument_counterexample:
  "argsParse noFiles specModes cmdLineItemInit [''nav'', ''-s'', ''-h'', ''-i'', ''1''] initHeap =
     Return ((defaultConfig specModes)\<lparr>Symbol := ''-h'', Instance := 1\<rparr>) None
       (initHeap(needsAddr := [(''-s'', True), (''-i'', True)]))"
  by (simp add: run_simps Atoi_1)

text \<open>
  C7. The tracker entry of a mandatory switch is set to true when its token is
  recognised, before its argument is consumed and before its handler runs. Let a prefix
  be scanned without failure and be followed by the token of a mandatory,
  argument-taking descriptor. If the stream ends there, the handler has not run, the
  error is "missing switch arg", and the entry is true in the heap left behind. If an
  argument follows on which the handler fails, \<^verbatim>\<open>argsParse\<close> returns the handler's error,
  which is not the error "missing needed arg" of the final check, and leaves the same
  heap, with the entry true.
\<close>

theorem marked_on_recognition:
  assumes "allSucceed fs om (occurrences lines pre)" and "\<not> endsMidArgument lines pre"
    and "findSwitch lines t = Some d" and "hasArg d" and "needed d"
  shows
    "(let H = mapassign (markAll needsAddr (recognized lines pre)
                           (resetNeeds lines (defaultConfig om) h)) needsAddr t True
      in map_of (H needsAddr) t = Some True
       \<and> argsParse fs om lines (prog # pre @ [t]) h =
           Return (defaultConfig om) (Some (ErrorsNew ''missing switch arg'')) H
       \<and> (callFunc fs om (func d) (applyAll fs om (occurrences lines pre) (defaultConfig om)) [a]
            = HRet c' (Some err) \<longrightarrow>
          argsParse fs om lines (prog # pre @ t # a # post) h =
            Return (defaultConfig om) (Some err) H
          \<and> err \<noteq> ErrorsNew ''missing needed arg''))"
  using dangling_run [OF assms, of prog h] failing_argument_run [OF assms, of a c' err prog post h]
  by (auto simp: Let_def mapassign_same dest: callFunc_error_kind)

theorem marked_on_recognition_witness:
  "argsParse noFiles specModes cmdLineItemInit [''nav'', ''-s'', ''foo'', ''-i''] initHeap =
     Return (defaultConfig specModes) (Some (ErrorsNew ''missing switch arg''))
       (initHeap(needsAddr := [(''-s'', True), (''-i'', True)]))
   \<and> argsParse noFiles specModes cmdLineItemInit
       [''nav'', ''-s'', ''foo'', ''-i'', ''abc'', ''-x'', ''3''] initHeap =
     Return (defaultConfig specModes) (Some (NumError ''abc'' ErrSyntax))
       (initHeap(needsAddr := [(''-s'', True), (''-i'', True)]))"
  using marked_on_recognition
    [of noFiles specModes cmdLineItemInit "[''-s'', ''foo'']" "''-i''" "cmdLineItemInit ! 2"
        initHeap "''nav''" "''abc''" "(defaultConfig specModes)\<lparr>Symbol := ''foo''\<rparr>"
        "NumError ''abc'' ErrSyntax" "[''-x'', ''3'']"]
  by (simp add: scan_simps run_simps Atoi_abc)

text \<open>
  C9. The registry contains the switch \<^verbatim>\<open>-d\<close>, once: it takes an argument, it is not
  mandatory, and its handler \<^verbatim>\<open>funcDBHost\<close> stores the argument unchanged in the
  database host field and returns no error.
\<close>

theorem dbhost_switch:
  "filter (\<lambda>d. switchStr d = ''-d'') cmdLineItemInit =
     [\<lparr>func = FuncDBHost, switchStr = ''-d'', helpStr = ''Forces use specified DBHost'',
        itemId = 7, hasArg = True, needed = False\<rparr>]
   \<and> callFunc fs om FuncDBHost conf (a # as) = HRet (conf\<lparr>DBUrl := a\<rparr>) None"
  by (simp add: cmdLineItemInit_list funcDBHost_def)

text \<open>
  C10. The working configuration of \<^verbatim>\<open>argsParse\<close> is a copy of \<^verbatim>\<open>defaultConfig\<close> and so
  holds the same map: every write to the tracker is a write to the map of
  \<^verbatim>\<open>defaultConfig\<close>. For every return of \<^verbatim>\<open>argsParse\<close>, with or without error, from an
  arbitrary heap: the configuration returned refers to the map of \<^verbatim>\<open>defaultConfig\<close>; the
  heap is changed at that map only; the map has kept every key it had and has a key for
  every mandatory descriptor; and an entry whose key is not the token of a mandatory
  descriptor is what it was before the call, so that entries written by one call are
  there in the next.
\<close>

theorem tracker_shared:
  assumes "argsParse fs om lines osArgs h = Return c e h'"
  shows "cmdlineNeeds c = cmdlineNeeds (defaultConfig om)
       \<and> (\<forall>b. b \<noteq> cmdlineNeeds (defaultConfig om) \<longrightarrow> h' b = h b)
       \<and> fst ` set (h' (cmdlineNeeds c)) =
           fst ` set (h (cmdlineNeeds (defaultConfig om))) \<union> switchStr ` {d \<in> set lines. needed d}
       \<and> (\<forall>k. k \<notin> switchStr ` {d \<in> set lines. needed d} \<longrightarrow>
              map_of (h' (cmdlineNeeds c)) k = map_of (h (cmdlineNeeds (defaultConfig om))) k)"
proof -
  from argsParse_heap [OF assms] obtain ds where
    ds: "set ds \<subseteq> set lines"
    and h': "h' = markAll needsAddr ds (resetNeeds lines (defaultConfig om) h)"
    by blast
  have c: "cmdlineNeeds c = needsAddr" using assms by (rule argsParse_conf)
  have "\<forall>b. b \<noteq> needsAddr \<longrightarrow> h' b = h b"
    using resetNeeds_other [of _ "defaultConfig om" lines h]
    by (simp add: h' markAll_other needsAddr_default)
  moreover have "fst ` set (h' needsAddr) =
      fst ` set (h needsAddr) \<union> switchStr ` {d \<in> set lines. needed d}"
    using ds unfolding h' tracker_keys_after_run by auto
  moreover have "\<forall>k. k \<notin> switchStr ` {d \<in> set lines. needed d} \<longrightarrow>
      map_of (h' needsAddr) k = map_of (h needsAddr) k"
    using ds unfolding h' tracker_after_run by auto
  ultimately show ?thesis by (simp add: c needsAddr_default)
qed

theorem tracker_shared_witness:
  "argsParse noFiles specModes cmdLineItemInit [''nav'', ''-s'', ''foo'', ''-x'', ''-1''] initHeap =
     Return (defaultConfig specModes) (Some (ErrorsNew ''depth must be >= 0''))
       (initHeap(needsAddr := [(''-s'', True), (''-i'', False)]))
   \<and> cmdlineNeeds (defaultConfig specModes) = needsAddr
   \<and> initHeap needsAddr = []"
  using tracker_shared
    [of noFiles specModes cmdLineItemInit "[''nav'', ''-s'', ''foo'', ''-x'', ''-1'']" initHeap
        "defaultConfig specModes" "Some (ErrorsNew ''depth must be >= 0'')"
        "initHeap(needsAddr := [(''-s'', True), (''-i'', False)])"]
  by (simp add: run_simps Atoi_minus1)

text \<open>Two calls in a row. The first, on \<^verbatim>\<open>nav -s foo -x -1\<close>, fails and leaves the entry
  of \<^verbatim>\<open>-i\<close> false. The second is given a registry without mandatory switches and no
  token at all; it finds that entry and fails on it.\<close>

lemma tracker_persists_example:
  "argsParse noFiles specModes [] [''nav'']
     (initHeap(needsAddr := [(''-s'', True), (''-i'', False)])) =
     Return (defaultConfig specModes) (Some (ErrorsNew ''missing needed arg''))
       (initHeap(needsAddr := [(''-s'', True), (''-i'', False)]))
   \<and> argsParse noFiles specModes [] [''nav''] initHeap =
     Return (defaultConfig specModes) None initHeap"
  by (simp add: run_simps)

end
